theory Spec2Isabelle
  imports Main "HOL-Library.Word"
begin

unbundle bit_operations_syntax

section \<open>Common Go values\<close>

type_synonym byte = "8 word"

text \<open>Go \<open>error\<close> values are modelled by their message; \<open>None\<close> is the nil error.\<close>

type_synonym error = string

text \<open>
  A Go panic ends the call without a result.  Every panic the modelled code can raise is a
  constructor; a call either panics or returns.
\<close>

datatype panic =
    NilHandler "16 word"         \<comment> \<open>"nil udp handler on port " + Itoa(Port)\<close>
  | InvalidPortOrNilHandler      \<comment> \<open>"invalid port or nil handler" ...\<close>
  | SliceBoundsOutOfRange        \<comment> \<open>runtime error of a slice expression\<close>
  | As4ZeroAddr                  \<comment> \<open>"As4 called on IP zero value"\<close>
  | As4IPv6                      \<comment> \<open>"As4 called on IPv6 address"\<close>
  | IndexOutOfRange              \<comment> \<open>runtime error of an index expression\<close>

datatype 'a outcome = Panic panic | Returns 'a

text \<open>
  \<open>time.Time\<close> is modelled by the instant it denotes, in nanoseconds counted from the
  zero time \<open>time.Time{}\<close>; \<open>IsZero\<close> holds of the zero instant only.
\<close>

type_synonym time = int

definition zeroTime :: time where
  "zeroTime = 0"

definition IsZero :: "time \<Rightarrow> bool" where
  "IsZero t = (t = zeroTime)"

text \<open>
  Modelled from the spec: \<open>forcedTime\<close> is declared outside the files under src/.  The
  spec describes it as a sentinel timestamp distinct from the zero value; here it is the
  instant one nanosecond after the zero time.  Only its being different from the zero
  time is ever used.
\<close>

definition forcedTime :: time where
  "forcedTime = 1"

text \<open>
  A Go byte slice: the elements below its length, and the elements of the backing array
  between its length and its capacity (which a slice expression may reach).
\<close>

record slice =
  elems :: "byte list"
  spare :: "byte list"

definition slen :: "slice \<Rightarrow> nat" where
  "slen s = length (elems s)"

definition scap :: "slice \<Rightarrow> nat" where
  "scap s = length (elems s) + length (spare s)"

text \<open>The slice expression \<open>s[a:b]\<close> on a slice: legal up to the capacity of \<open>s\<close>.\<close>

definition reslice :: "slice \<Rightarrow> nat \<Rightarrow> nat \<Rightarrow> slice outcome" where
  "reslice s a b =
     (if a \<le> b \<and> b \<le> scap s
      then Returns \<lparr>elems = take (b - a) (drop a (elems s @ spare s)),
                    spare = drop b (elems s @ spare s)\<rparr>
      else Panic SliceBoundsOutOfRange)"

text \<open>The slice expression \<open>arr[a:b]\<close> on an array, with Go \<open>int\<close> bounds.\<close>

definition array_slice :: "byte list \<Rightarrow> int \<Rightarrow> int \<Rightarrow> slice outcome" where
  "array_slice arr a b =
     (if 0 \<le> a \<and> a \<le> b \<and> b \<le> int (length arr)
      then Returns \<lparr>elems = take (nat (b - a)) (drop (nat a) arr), spare = drop (nat b) arr\<rparr>
      else Panic SliceBoundsOutOfRange)"

section \<open>Headers of package eth\<close>

text \<open>
  Modelled from the spec: the size constants of package eth are declared outside the files
  under src/.  They are the sizes of the fixed Ethernet, IPv4, TCP, UDP and DHCP headers
  on the wire (the comment of \<open>PutHeaders\<close> gives 54 for the first three together).
\<close>

definition SizeEthernetHeader :: int where "SizeEthernetHeader = 14"
definition SizeIPv4Header :: int where "SizeIPv4Header = 20"
definition SizeTCPHeader :: int where "SizeTCPHeader = 20"
definition SizeUDPHeader :: int where "SizeUDPHeader = 8"
definition SizeDHCPHeader :: int where "SizeDHCPHeader = 44"

type_synonym ip4 = "byte \<times> byte \<times> byte \<times> byte"
type_synonym hw6 = "byte \<times> byte \<times> byte \<times> byte \<times> byte \<times> byte"

text \<open>The header structs, with the fields the files under src/ read or write.\<close>

record EthernetHeader =
  Destination :: hw6
  Source :: hw6
  SizeOrEtherType :: "16 word"

record IPv4Header =
  VersionAndIHL :: "8 word"
  ToS :: "8 word"
  TotalLength :: "16 word"
  ID :: "16 word"
  Flags :: "16 word"
  TTL :: "8 word"
  Protocol :: "8 word"
  Checksum :: "16 word"
  Source :: ip4
  Destination :: ip4

section \<open>TCP packets and sockets (package stack)\<close>

text \<open>
  \<open>TCPPacket\<close>.  The TCP header struct is declared outside src/ and only reached through
  its methods, so its type is a parameter.  The array \<open>data\<close> has a fixed length in the
  source (\<open>tcpMTU\<close>); the model takes any length.
\<close>

record 'tcp TCPPacket =
  Rx :: time
  Eth :: EthernetHeader
  IP :: IPv4Header
  TCP :: "'tcp"
  data :: "byte list"

text \<open>
  The methods of package eth and of the control block \<open>seqs.ControlBlock\<close> that the socket
  calls are declared outside src/; they are parameters of the model.  \<open>IHL\<close> and
  \<open>OffsetInBytes\<close> return unsigned machine integers, \<open>Recv\<close> and \<open>PendingSegment\<close>
  may change the control block.
\<close>

record ('tcp, 'seg, 'tcb) tcp_env =
  IHL :: "IPv4Header \<Rightarrow> 8 word"
  OffsetInBytes :: "'tcp \<Rightarrow> 16 word"
  Segment :: "'tcp \<Rightarrow> int \<Rightarrow> 'seg"
  Recv :: "'tcb \<Rightarrow> 'seg \<Rightarrow> error option \<times> 'tcb"
  PendingSegment :: "'tcb \<Rightarrow> int \<Rightarrow> bool \<times> 'tcb"

definition HasPacket :: "'tcp TCPPacket \<Rightarrow> bool" where
  "HasPacket u = (Rx u \<noteq> forcedTime \<and> \<not> IsZero (Rx u))"

text \<open>
  \<open>dataPtrs\<close>.  The product \<open>4*p.IP.IHL()\<close> is taken in the type of \<open>IHL\<close> before the
  conversion to \<open>int\<close>; the rest is \<open>int\<close> arithmetic on values far below any overflow.
\<close>

definition dataPtrs :: "('tcp, 'seg, 'tcb) tcp_env \<Rightarrow> 'tcp TCPPacket \<Rightarrow> int \<times> int \<times> int" where
  "dataPtrs env p =
     (let tcpOptStart = uint (4 * IHL env (IP p)) - SizeIPv4Header;
          payloadStart = tcpOptStart + uint (OffsetInBytes env (TCP p)) - SizeTCPHeader;
          payloadEnd = uint (TotalLength (IP p)) - tcpOptStart - SizeTCPHeader - SizeIPv4Header
      in if payloadStart < 0 \<or> payloadEnd < 0 \<or> tcpOptStart < 0 \<or> payloadStart > payloadEnd \<or>
            payloadEnd > int (length (data p)) \<or> tcpOptStart > payloadStart
         then (-1, -1, -1)
         else (payloadStart, payloadEnd, tcpOptStart))"

text \<open>\<open>Payload\<close>: \<open>None\<close> is the nil slice.\<close>

definition Payload :: "('tcp, 'seg, 'tcb) tcp_env \<Rightarrow> 'tcp TCPPacket \<Rightarrow> slice option outcome" where
  "Payload env p =
     (if \<not> HasPacket p then Returns None
      else (case dataPtrs env p of
              (payloadStart, payloadEnd, _) \<Rightarrow>
                if payloadStart < 0 then Returns None
                else (case array_slice (data p) payloadStart payloadEnd of
                        Panic e \<Rightarrow> Panic e
                      | Returns s \<Rightarrow> Returns (Some s))))"

definition TCPOptions :: "('tcp, 'seg, 'tcb) tcp_env \<Rightarrow> 'tcp TCPPacket \<Rightarrow> slice option outcome" where
  "TCPOptions env p =
     (if \<not> HasPacket p then Returns None
      else (case dataPtrs env p of
              (payloadStart, _, tcpOptStart) \<Rightarrow>
                if payloadStart < 0 then Returns None
                else (case array_slice (data p) tcpOptStart payloadStart of
                        Panic e \<Rightarrow> Panic e
                      | Returns s \<Rightarrow> Returns (Some s))))"

definition IPOptions :: "('tcp, 'seg, 'tcb) tcp_env \<Rightarrow> 'tcp TCPPacket \<Rightarrow> slice option outcome" where
  "IPOptions env p =
     (if \<not> HasPacket p then Returns None
      else (case dataPtrs env p of
              (_, _, tcpOpts) \<Rightarrow>
                if tcpOpts < 0 then Returns None
                else (case array_slice (data p) 0 tcpOpts of
                        Panic e \<Rightarrow> Panic e
                      | Returns s \<Rightarrow> Returns (Some s))))"

text \<open>
  \<open>tcpSocket\<close>.  The array \<open>packets\<close> has exactly one element, \<open>packets[0]\<close>, which is
  the field \<open>packets0\<close>.  A handler receives the destination slice and a pointer to the
  packet; it may write both, so the model has it return them with its two results.
\<close>

type_synonym 'tcp handler_fn =
  "slice \<Rightarrow> 'tcp TCPPacket \<Rightarrow> (int \<times> error option) \<times> slice \<times> 'tcp TCPPacket"

record ('tcp, 'tcb) tcpSocket =
  LastRx :: time
  handler :: "'tcp handler_fn option"
  Port :: "16 word"
  packets0 :: "'tcp TCPPacket"
  tcb :: "'tcb"

definition IsPendingHandling :: "('tcp, 'tcb) tcpSocket \<Rightarrow> bool" where
  "IsPendingHandling u = (Port u \<noteq> 0 \<and> \<not> IsZero (Rx (packets0 u)))"

definition NeedsHandling :: "('tcp, 'tcb) tcpSocket \<Rightarrow> bool" where
  "NeedsHandling u = IsPendingHandling u"

text \<open>
  What a call of \<open>HandleEth\<close> leaves behind: its two results, the socket, the destination
  slice, and (a ghost field) how many times the stored handler was called.
\<close>

record ('tcp, 'tcb) handled =
  written :: int
  failure :: "error option"
  socket_after :: "('tcp, 'tcb) tcpSocket"
  dst_after :: slice
  handler_calls :: nat

definition payload_len :: "slice option \<Rightarrow> int" where
  "payload_len payload = (case payload of None \<Rightarrow> 0 | Some s \<Rightarrow> int (slen s))"

text \<open>The last two statements of \<open>HandleEth\<close>: invalidate the packet and return.\<close>

definition invalidate ::
  "('tcp, 'tcb) tcpSocket \<Rightarrow> 'tcp TCPPacket \<Rightarrow> int \<Rightarrow> error option \<Rightarrow> slice \<Rightarrow> nat \<Rightarrow>
     ('tcp, 'tcb) handled" where
  "invalidate u packet k e dst c =
     \<lparr>written = k, failure = e, socket_after = u\<lparr>packets0 := packet\<lparr>Rx := zeroTime\<rparr>\<rparr>,
      dst_after = dst, handler_calls = c\<rparr>"

definition HandleEth ::
  "('tcp, 'seg, 'tcb) tcp_env \<Rightarrow> ('tcp, 'tcb) tcpSocket \<Rightarrow> slice \<Rightarrow> ('tcp, 'tcb) handled outcome" where
  "HandleEth env u dst =
     (case handler u of
        None \<Rightarrow> Panic (NilHandler (Port u))
      | Some h \<Rightarrow>
          let packet = packets0 u in
          if HasPacket packet then
            (case Payload env packet of
               Panic e \<Rightarrow> Panic e
             | Returns payload \<Rightarrow>
                 let incoming = Segment env (TCP packet) (payload_len payload) in
                 (case Recv env (tcb u) incoming of
                    (Some e, tcb1) \<Rightarrow>
                      Returns \<lparr>written = 0, failure = Some e, socket_after = u\<lparr>tcb := tcb1\<rparr>,
                               dst_after = dst, handler_calls = 0\<rparr>
                  | (None, tcb1) \<Rightarrow>
                      (case PendingSegment env tcb1 0 of
                         (ok, tcb2) \<Rightarrow>
                           if ok then
                             (case h dst packet of
                                ((k, e), dst1, packet1) \<Rightarrow>
                                  Returns (invalidate (u\<lparr>tcb := tcb2\<rparr>) packet1 k e dst1 1))
                           else Returns (invalidate (u\<lparr>tcb := tcb2\<rparr>) packet 0 None dst 0))))
          else
            (case h dst packet of
               ((k, e), dst1, packet1) \<Rightarrow> Returns (invalidate u packet1 k e dst1 1)))"

definition Open ::
  "('tcp, 'tcb) tcpSocket \<Rightarrow> 16 word \<Rightarrow> 'tcp handler_fn option \<Rightarrow> ('tcp, 'tcb) tcpSocket outcome" where
  "Open u port h =
     (if port = 0 \<or> h = None then Panic InvalidPortOrNilHandler
      else Returns (u\<lparr>handler := h, Port := port, packets0 := (packets0 u)\<lparr>Rx := zeroTime\<rparr>\<rparr>))"

definition pending :: "('tcp, 'tcb) tcpSocket \<Rightarrow> 32 word" where
  "pending s = (if HasPacket (packets0 s) then 1 else 0)"

definition Close :: "('tcp, 'tcb) tcpSocket \<Rightarrow> ('tcp, 'tcb) tcpSocket" where
  "Close u = u\<lparr>handler := None, Port := 0\<rparr>"

definition forceResponse :: "('tcp, 'tcb) tcpSocket \<Rightarrow> bool \<times> ('tcp, 'tcb) tcpSocket" where
  "forceResponse u =
     (if \<not> IsPendingHandling u then (True, u\<lparr>packets0 := (packets0 u)\<lparr>Rx := forcedTime\<rparr>\<rparr>)
      else (False, u))"

section \<open>DHCP server (package stacks)\<close>

text \<open>
  \<open>netip.Addr\<close> of the Go standard library: the zero \<open>Addr\<close> is no address at all, and
  \<open>As4\<close> panics on it and on an IPv6 address that is not IPv4-mapped, as its
  documentation states.
\<close>

datatype netip_Addr = AddrZero | Addr4 ip4 | Addr6 "128 word"

definition AddrFrom4 :: "ip4 \<Rightarrow> netip_Addr" where
  "AddrFrom4 a = Addr4 a"

fun As4 :: "netip_Addr \<Rightarrow> ip4 outcome" where
  "As4 (Addr4 a) = Returns a"
| "As4 AddrZero = Panic As4ZeroAddr"
| "As4 (Addr6 w) =
     (if drop_bit 32 w = 0xFFFF
      then Returns (ucast (drop_bit 24 w), ucast (drop_bit 16 w), ucast (drop_bit 8 w), ucast w)
      else Panic As4IPv6)"

record UDPHeader =
  SourcePort :: "16 word"
  DestinationPort :: "16 word"
  Length :: "16 word"
  Checksum :: "16 word"

text \<open>
  \<open>eth.DHCPHeader\<close> and \<open>UDPPacket\<close> are declared outside src/.  The records have the
  fields that \<open>dhcp_server.go\<close> reads or writes; whatever else the structs hold is the
  extension part of the record schemes below.
\<close>

record DHCPHeader =
  YIAddr :: ip4
  SIAddr :: ip4

record UDPPacket =
  Eth :: EthernetHeader
  IP :: IPv4Header
  UDP :: UDPHeader

text \<open>
  Modelled from the spec: the option tags of package eth and the two client states are
  declared outside src/.  The spec names the tags Message-Type, Parameter-Request-List and
  Requested-IP-Address, whose numbers on the wire are 53, 55 and 50, and the states None
  (the state of a default-valued record) and WaitingForOffer.
\<close>

definition DHCP_MessageType :: byte where "DHCP_MessageType = 53"
definition DHCP_ParameterRequestList :: byte where "DHCP_ParameterRequestList = 55"
definition DHCP_RequestedIPaddress :: byte where "DHCP_RequestedIPaddress = 50"

definition dhcpStateNone :: "8 word" where "dhcpStateNone = 0"
definition dhcpStateWaitOffer :: "8 word" where "dhcpStateWaitOffer = 1"

record dhcpclient =
  addr :: netip_Addr
  state :: "8 word"
  port :: "16 word"
  requestlist :: "byte list"

text \<open>The zero value of \<open>dhcpclient\<close>, which a Go map returns for a key it does not hold.\<close>

definition dhcpclient_zero :: dhcpclient where
  "dhcpclient_zero = \<lparr>addr = AddrZero, state = 0, port = 0, requestlist = replicate 10 0\<rparr>"

record dhcpOption =
  Opt :: byte
  Data :: slice

record DHCPServer =
  mac :: hw6
  nextAddr :: netip_Addr
  siaddr :: netip_Addr
  port :: "16 word"
  hosts :: "hw6 \<rightharpoonup> dhcpclient"

definition NewDHCPServer :: "16 word \<Rightarrow> hw6 \<Rightarrow> netip_Addr \<Rightarrow> DHCPServer" where
  "NewDHCPServer port0 mac0 siaddr0 =
     \<lparr>mac = mac0, nextAddr = AddrZero, siaddr = siaddr0, port = port0, hosts = Map.empty\<rparr>"

text \<open>
  The functions of package eth and the methods of \<open>UDPPacket\<close> that \<open>dhcp_server.go\<close> calls
  are declared outside src/; they are parameters of the model.  \<open>udpPayload\<close> is
  \<open>UDPPacket.Payload\<close> (the nil slice is the slice of length and capacity 0),
  \<open>PutDHCPHeader\<close> and \<open>udpPutHeaders\<close> give the bytes that \<open>DHCPHeader.Put\<close> and
  \<open>UDPPacket.PutHeaders\<close> store at the start of their argument, and \<open>zeroDHCPHeader\<close> is
  the zero value of the header struct.
\<close>

record ('h, 'u) dhcp_env =
  udpHasPacket :: "'u UDPPacket_scheme \<Rightarrow> bool"
  udpPayload :: "'u UDPPacket_scheme \<Rightarrow> slice"
  udpPutHeaders :: "'u UDPPacket_scheme \<Rightarrow> byte list"
  zeroDHCPHeader :: "'h DHCPHeader_scheme"
  DecodeDHCPHeader :: "slice \<Rightarrow> 'h DHCPHeader_scheme"
  PutDHCPHeader :: "'h DHCPHeader_scheme \<Rightarrow> byte list"
  prand16 :: "16 word \<Rightarrow> 16 word"
  CalculateChecksum :: "IPv4Header \<Rightarrow> 16 word"
  CalculateChecksumIPv4 :: "UDPHeader \<Rightarrow> IPv4Header \<Rightarrow> slice \<Rightarrow> 16 word"
  BroadcastHW6 :: hw6
  EtherTypeIPv4 :: "16 word"

text \<open>The constants that \<open>parseDHCP\<close> and \<open>HandleUDP\<close> declare.\<close>

definition sizeSName :: int where "sizeSName = 64"
definition sizeFILE :: int where "sizeFILE = 128"
definition sizeOptions :: int where "sizeOptions = 312"
definition dhcpOffset :: int where
  "dhcpOffset = SizeEthernetHeader + SizeIPv4Header + SizeUDPHeader"
definition optionsStart :: int where
  "optionsStart = dhcpOffset + SizeDHCPHeader + sizeSName + sizeFILE"
definition sizeDHCPTotal :: int where
  "sizeDHCPTotal = SizeDHCPHeader + sizeSName + sizeFILE + sizeOptions"

text \<open>
  The callback of \<open>parseDHCP\<close> is a closure; the variables it captures are the state
  \<open>'s\<close> that the model passes through it.
\<close>

type_synonym 's visit_fn = "'s \<Rightarrow> dhcpOption \<Rightarrow> error option \<times> 's"

text \<open>
  The loop of \<open>parseDHCP\<close>.  Both index expressions are guarded by the loop condition; the
  slice expression \<open>incpayload[ptr+2 : ptr+2+int(optlen)]\<close> is checked by the Go runtime
  against the capacity of \<open>incpayload\<close>.
\<close>

function parse_options ::
  "'s visit_fn \<Rightarrow> slice \<Rightarrow> nat \<Rightarrow> 's \<Rightarrow> (error option \<times> 's) outcome" where
  "parse_options fn incpayload ptr st =
     (if ptr + 1 < slen incpayload \<and> unat (elems incpayload ! (ptr + 1)) < slen incpayload
      then
        if elems incpayload ! ptr = 0xFF then Returns (None, st)
        else
          (let opt = elems incpayload ! ptr;
               optlen = elems incpayload ! (ptr + 1)
           in case reslice incpayload (ptr + 2) (ptr + 2 + unat optlen) of
                Panic e \<Rightarrow> Panic e
              | Returns optionData \<Rightarrow>
                  (case fn st \<lparr>Opt = opt, Data = optionData\<rparr> of
                     (Some err, st1) \<Rightarrow> Returns (Some err, st1)
                   | (None, st1) \<Rightarrow> parse_options fn incpayload (ptr + (unat optlen + 2)) st1))
      else Returns (None, st))"
  by pat_completeness auto
termination
  by (relation "measure (\<lambda>(fn, incpayload, ptr, st). slen incpayload - ptr)") auto

declare parse_options.simps [simp del]

definition parseDHCP ::
  "('h, 'u) dhcp_env \<Rightarrow> slice \<Rightarrow> 's visit_fn option \<Rightarrow> 's \<Rightarrow>
     ('h DHCPHeader_scheme \<times> error option \<times> 's) outcome" where
  "parseDHCP env incpayload fn st =
     (if int (slen incpayload) < SizeDHCPHeader
      then Returns (zeroDHCPHeader env, Some ''short payload to parse DHCP'', st)
      else
        (case fn of
           None \<Rightarrow> Returns (zeroDHCPHeader env, Some ''nil function to parse DHCP'', st)
         | Some f \<Rightarrow>
             (let hdr = DecodeDHCPHeader env incpayload;
                  ptr = SizeDHCPHeader + sizeSName + sizeFILE + 4
              in if ptr \<ge> int (slen incpayload)
                 then Returns (hdr, Some ''short payload to parse DHCP options'', st)
                 else (case parse_options f incpayload (nat ptr) st of
                         Panic e \<Rightarrow> Panic e
                       | Returns (err, st1) \<Rightarrow> Returns (hdr, err, st1)))))"

text \<open>
  The callback that \<open>HandleUDP\<close> passes to \<open>parseDHCP\<close>; it captures the local variables
  \<open>client\<close> and \<open>msgType\<close>.
\<close>

definition visit_option :: "(dhcpclient \<times> byte) visit_fn" where
  "visit_option st opt =
     (case st of
        (client, msgType) \<Rightarrow>
          if Opt opt = DHCP_MessageType then
            (if slen (Data opt) = 1 then (None, (client, elems (Data opt) ! 0))
             else (None, (client, msgType)))
          else if Opt opt = DHCP_ParameterRequestList then
            (None, (client\<lparr>requestlist :=
                       take 10 (elems (Data opt)) @ replicate (10 - slen (Data opt)) 0\<rparr>, msgType))
          else if Opt opt = DHCP_RequestedIPaddress then
            (if slen (Data opt) = 4 \<and> state client = dhcpStateNone
             then (None, (client\<lparr>addr := AddrFrom4 (elems (Data opt) ! 0, elems (Data opt) ! 1,
                                     elems (Data opt) ! 2, elems (Data opt) ! 3)\<rparr>, msgType))
             else (None, (client, msgType)))
          else (None, (client, msgType)))"

text \<open>\<open>DHCPServer.next\<close> (the name \<open>next\<close> is an Isar keyword).\<close>

definition next_addr :: "DHCPServer \<Rightarrow> ip4 \<Rightarrow> ip4" where
  "next_addr d requested = (if requested \<noteq> (0, 0, 0, 0) then requested else (192, 168, 1, 2))"

text \<open>
  Writing the bytes \<open>bs\<close> into a slice from index \<open>off\<close> on, as \<open>copy(s[off:], bs)\<close>
  does: elements below the length of \<open>s\<close> are overwritten, the length stays.
\<close>

definition write_at :: "slice \<Rightarrow> nat \<Rightarrow> byte list \<Rightarrow> slice" where
  "write_at s off bs =
     s\<lparr>elems := take off (elems s) @ take (slen s - off) bs @ drop (off + length bs) (elems s)\<rparr>"

text \<open>
  Modelled from the spec: \<open>encodeDHCPOption\<close> is declared outside src/.  The spec has it
  write an option as tag, length, data contiguously from \<open>dst[0]\<close> on and return the
  number of bytes written.  Here \<open>dst\<close> is \<open>resp[ptr:]\<close>, and the function returns \<open>resp\<close>
  as written together with that number.
\<close>

definition encodeDHCPOption :: "slice \<Rightarrow> nat \<Rightarrow> dhcpOption \<Rightarrow> slice \<times> int" where
  "encodeDHCPOption resp ptr opt =
     (write_at resp ptr (Opt opt # of_nat (slen (Data opt)) # elems (Data opt)),
      2 + int (slen (Data opt)))"

text \<open>The loop \<open>for _, opt := range Options\<close> of \<open>HandleUDP\<close>.\<close>

fun encode_options :: "slice \<Rightarrow> nat \<Rightarrow> dhcpOption list \<Rightarrow> slice \<times> nat" where
  "encode_options resp ptr [] = (resp, ptr)"
| "encode_options resp ptr (opt # opts) =
     (case encodeDHCPOption resp ptr opt of
        (resp1, k) \<Rightarrow> encode_options resp1 (ptr + nat k) opts)"

text \<open>\<open>setResponseUDP\<close>; the untyped constant \<open>ipLenInWords\<close> is 5 at each of its uses.  Its
  only call that can panic is \<open>d.siaddr.As4()\<close>.\<close>

definition setResponseUDP ::
  "('h, 'u) dhcp_env \<Rightarrow> DHCPServer \<Rightarrow> 16 word \<Rightarrow> 'u UDPPacket_scheme \<Rightarrow> slice \<Rightarrow>
     'u UDPPacket_scheme outcome" where
  "setResponseUDP env d clientport packet payload =
     (let eth1 = (Eth packet)\<lparr>EthernetHeader.Destination := BroadcastHW6 env,
                   EthernetHeader.Source := mac d, SizeOrEtherType := EtherTypeIPv4 env\<rparr>;
          ip1 = (IP packet)\<lparr>IPv4Header.Destination := (0, 0, 0, 0)\<rparr>
      in case As4 (siaddr d) of
           Panic e \<Rightarrow> Panic e
         | Returns server \<Rightarrow>
             (let ip2 = ip1\<lparr>IPv4Header.Source := server\<rparr>;
                  ip3 = ip2\<lparr>Protocol := 17, TTL := 64\<rparr>;
                  ip4 = ip3\<lparr>ID := prand16 env (ID ip3)\<rparr>;
                  ip5 = ip4\<lparr>VersionAndIHL := 5\<rparr>;
                  ip6 = ip5\<lparr>TotalLength :=
                          4 * 5 + word_of_int SizeUDPHeader + of_nat (slen payload)\<rparr>;
                  ip7 = ip6\<lparr>IPv4Header.Checksum := CalculateChecksum env ip6\<rparr>;
                  ip8 = ip7\<lparr>ToS := 192, Flags := 0\<rparr>;
                  udp1 = (UDP packet)\<lparr>DestinationPort := clientport,
                           SourcePort := DHCPServer.port d\<rparr>;
                  udp2 = udp1\<lparr>Length := TotalLength ip8 - 4 * 5\<rparr>;
                  udp3 = udp2\<lparr>UDPHeader.Checksum := CalculateChecksumIPv4 env udp2 ip8 payload\<rparr>
              in Returns (packet\<lparr>Eth := eth1, IP := ip8, UDP := udp3\<rparr>)))"

text \<open>What a call of \<open>HandleUDP\<close> leaves behind: its two results and the three objects it
  may write.\<close>

record 'u replied =
  nbytes :: int
  uerr :: "error option"
  server_after :: DHCPServer
  resp_after :: slice
  packet_after :: "'u UDPPacket_scheme"

text \<open>The \<open>switch msgType\<close> of \<open>HandleUDP\<close>: the error, the header, the options and the
  client record it leaves.\<close>

definition dhcp_switch ::
  "DHCPServer \<Rightarrow> 'u UDPPacket_scheme \<Rightarrow> dhcpclient \<Rightarrow> byte \<Rightarrow> 'h DHCPHeader_scheme \<Rightarrow>
     (error option \<times> 'h DHCPHeader_scheme \<times> dhcpOption list \<times> dhcpclient) outcome" where
  "dhcp_switch d packet client msgType rcvHdr =
     (if msgType = 1 then
        (if state client \<noteq> dhcpStateNone
         then Returns (Some ''DHCP Discover on initialized client'', rcvHdr, [], client)
         else
           (case As4 (addr client) of
              Panic e \<Rightarrow> Panic e
            | Returns requested \<Rightarrow>
                (case As4 (siaddr d) of
                   Panic e \<Rightarrow> Panic e
                 | Returns server \<Rightarrow>
                     Returns (None,
                       rcvHdr\<lparr>YIAddr := next_addr d requested, SIAddr := server\<rparr>,
                       [\<lparr>Opt = DHCP_MessageType, Data = \<lparr>elems = [2], spare = []\<rparr>\<rparr>],
                       client\<lparr>dhcpclient.port := SourcePort (UDP packet),
                              state := dhcpStateWaitOffer\<rparr>))))
      else if msgType = 3 then
        (if state client \<noteq> dhcpStateWaitOffer
         then Returns (Some ''unexpected DHCP Request'', rcvHdr, [], client)
         else Returns (None, rcvHdr,
                [\<lparr>Opt = DHCP_MessageType, Data = \<lparr>elems = [5], spare = []\<rparr>\<rparr>], client))
      else Returns (None, rcvHdr, [], client))"

text \<open>The rest of \<open>HandleUDP\<close>, from \<open>d.hosts[mac] = client\<close> to the final return.\<close>

definition respond ::
  "('h, 'u) dhcp_env \<Rightarrow> DHCPServer \<Rightarrow> slice \<Rightarrow> 'u UDPPacket_scheme \<Rightarrow> hw6 \<Rightarrow> dhcpclient \<Rightarrow>
     'h DHCPHeader_scheme \<Rightarrow> dhcpOption list \<Rightarrow> 'u replied outcome" where
  "respond env d resp packet mac0 client rcvHdr Options =
     (let d1 = d\<lparr>hosts := (hosts d)(mac0 \<mapsto> client)\<rparr>;
          resp1 = resp\<lparr>elems := take (nat (dhcpOffset + 14)) (elems resp) @
                     replicate (slen resp - nat (dhcpOffset + 14)) 0\<rparr>;
          resp2 = write_at resp1 (nat dhcpOffset) (PutDHCPHeader env rcvHdr);
          resp3 = write_at resp2 (nat optionsStart) [0x63, 0x82, 0x53, 0x63]
      in case encode_options resp3 (nat optionsStart + 4) Options of
           (resp4, ptr) \<Rightarrow>
             if \<not> ptr < slen resp4 then Panic IndexOutOfRange
             else
               (let resp5 = resp4\<lparr>elems := (elems resp4)[ptr := 0xFF]\<rparr>
                in case reslice resp5 (nat dhcpOffset) (nat (dhcpOffset + sizeDHCPTotal)) of
                     Panic e \<Rightarrow> Panic e
                   | Returns payload \<Rightarrow>
                       (case setResponseUDP env d (dhcpclient.port client) packet payload of
                          Panic e \<Rightarrow> Panic e
                        | Returns packet1 \<Rightarrow>
                            Returns \<lparr>nbytes = dhcpOffset + sizeDHCPTotal, uerr = None,
                                      server_after = d1,
                                      resp_after = write_at resp5 0 (udpPutHeaders env packet1),
                                      packet_after = packet1\<rparr>)))"

definition HandleUDP ::
  "('h, 'u) dhcp_env \<Rightarrow> DHCPServer \<Rightarrow> slice \<Rightarrow> 'u UDPPacket_scheme \<Rightarrow> 'u replied outcome" where
  "HandleUDP env d resp packet =
     (let hasPacket = udpHasPacket env packet;
          incpayload = udpPayload env packet;
          unchanged = (\<lambda>e. Returns \<lparr>nbytes = 0, uerr = e, server_after = d, resp_after = resp,
                                     packet_after = packet\<rparr>)
      in if int (slen resp) < sizeDHCPTotal
         then unchanged (Some ''short payload to marshall DHCP'')
         else if hasPacket \<and> int (slen incpayload) < SizeDHCPHeader
         then unchanged (Some ''short payload to parse DHCP'')
         else if \<not> hasPacket then unchanged None
         else
           (let mac0 = EthernetHeader.Source (Eth packet);
                client = (case hosts d mac0 of None \<Rightarrow> dhcpclient_zero | Some c \<Rightarrow> c)
            in case parseDHCP env incpayload (Some visit_option) (client, 0) of
                 Panic e \<Rightarrow> Panic e
               | Returns (rcvHdr, err, (client1, msgType)) \<Rightarrow>
                   if err \<noteq> None then unchanged err
                   else
                     (case (if msgType \<noteq> 1
                            then (case As4 (siaddr d) of
                                    Panic e \<Rightarrow> Panic e
                                  | Returns server \<Rightarrow> Returns (SIAddr rcvHdr \<noteq> server))
                            else Returns False) of
                        Panic e \<Rightarrow> Panic e
                      | Returns other \<Rightarrow>
                          if other then unchanged err
                          else
                            (case dhcp_switch d packet client1 msgType rcvHdr of
                               Panic e \<Rightarrow> Panic e
                             | Returns (err1, rcvHdr1, Options, client2) \<Rightarrow>
                                 if err1 \<noteq> None then unchanged None
                                 else respond env d resp packet mac0 client2 rcvHdr1 Options))))"

text \<open>Concrete values on which the statements below are exercised.\<close>

definition demo_env :: "(16 word, int, nat) tcp_env" where
  "demo_env =
     \<lparr>IHL = (\<lambda>ip. VersionAndIHL ip AND 15), OffsetInBytes = (\<lambda>t. t),
      Segment = (\<lambda>t k. k), Recv = (\<lambda>t seg. (if seg = 3 then None else Some ''bad segment'', t + 1)),
      PendingSegment = (\<lambda>t k. (True, t))\<rparr>"

definition demo_eth :: EthernetHeader where
  "demo_eth = \<lparr>EthernetHeader.Destination = (1, 2, 3, 4, 5, 6),
     EthernetHeader.Source = (170, 187, 204, 221, 238, 255), SizeOrEtherType = 2048\<rparr>"

definition demo_ip :: IPv4Header where
  "demo_ip = \<lparr>VersionAndIHL = 69, ToS = 0, TotalLength = 43, ID = 7, Flags = 0, TTL = 64,
     Protocol = 6, Checksum = 0, Source = (10, 0, 0, 1), Destination = (10, 0, 0, 2)\<rparr>"

definition demo_packet :: "time \<Rightarrow> (16 word) TCPPacket" where
  "demo_packet t = \<lparr>Rx = t, TCPPacket.Eth = demo_eth, TCPPacket.IP = demo_ip, TCP = 20,
     data = [7, 8, 9, 10]\<rparr>"

definition demo_handler :: "(16 word) handler_fn" where
  "demo_handler dst p = ((1, Some ''handler failed''), dst\<lparr>elems := [0]\<rparr>, p\<lparr>Rx := 99\<rparr>)"

definition demo_socket :: "16 word \<Rightarrow> time \<Rightarrow> (16 word, nat) tcpSocket" where
  "demo_socket number t =
     \<lparr>LastRx = 0, handler = Some demo_handler, Port = number, packets0 = demo_packet t, tcb = 0\<rparr>"

definition demo_dst :: slice where
  "demo_dst = \<lparr>elems = [5, 5], spare = []\<rparr>"

definition demo_udp_packet :: UDPPacket where
  "demo_udp_packet = \<lparr>Eth = demo_eth, IP = demo_ip,
     UDP = \<lparr>SourcePort = 68, DestinationPort = 67, Length = 0, UDPHeader.Checksum = 0\<rparr>\<rparr>"

text \<open>
  DHCP payloads: 240 zero bytes (header, legacy fields and cookie area) followed by
  options.  \<open>options_payload [53, 1, 1, 255]\<close> is a Discover that carries no
  Requested-IP-Address option.
\<close>

definition options_payload :: "byte list \<Rightarrow> slice" where
  "options_payload opts = \<lparr>elems = replicate 240 0 @ opts, spare = []\<rparr>"

definition demo_resp :: slice where
  "demo_resp = \<lparr>elems = replicate 590 0, spare = []\<rparr>"

definition demo_dhcp_env :: "slice \<Rightarrow> (unit, unit) dhcp_env" where
  "demo_dhcp_env payload =
     \<lparr>udpHasPacket = (\<lambda>p. True), udpPayload = (\<lambda>p. payload),
      udpPutHeaders = (\<lambda>p. replicate 42 1),
      zeroDHCPHeader = \<lparr>YIAddr = (0, 0, 0, 0), SIAddr = (0, 0, 0, 0)\<rparr>,
      DecodeDHCPHeader = (\<lambda>s. \<lparr>YIAddr = (0, 0, 0, 0), SIAddr = (192, 168, 1, 1)\<rparr>),
      PutDHCPHeader = (\<lambda>h. replicate 44 2), prand16 = (\<lambda>x. x + 1),
      CalculateChecksum = (\<lambda>h. 0), CalculateChecksumIPv4 = (\<lambda>u h s. 0),
      BroadcastHW6 = (255, 255, 255, 255, 255, 255), EtherTypeIPv4 = 2048\<rparr>"

text \<open>A callback that records the options it is given.\<close>

definition record_option :: "(dhcpOption list) visit_fn" where
  "record_option seen opt = (None, seen @ [opt])"

section \<open>Header geometry\<close>

lemma dataPtrs_cases:
  "dataPtrs env p = (-1, -1, -1) \<or>
   (\<exists>ps pe os. dataPtrs env p = (ps, pe, os) \<and> 0 \<le> os \<and> os \<le> ps \<and> ps \<le> pe \<and>
      pe \<le> int (length (data p)))"
  unfolding dataPtrs_def Let_def by (simp split: if_splits)

lemma forcedTime_not_zero: "\<not> IsZero forcedTime"
  by (simp add: IsZero_def forcedTime_def zeroTime_def)

lemma Payload_returns:
  "Payload env p =
     (if HasPacket p \<and> dataPtrs env p \<noteq> (-1, -1, -1)
      then (case dataPtrs env p of
              (ps, pe, os) \<Rightarrow>
                Returns (Some \<lparr>elems = take (nat (pe - ps)) (drop (nat ps) (data p)),
                               spare = drop (nat pe) (data p)\<rparr>))
      else Returns None)"
  using dataPtrs_cases [of env p]
  by (auto simp: Payload_def array_slice_def)

text \<open>
  C1.  For every value of the header fields and every capacity of the data region,
  \<open>dataPtrs\<close> returns either the sentinel \<open>(-1, -1, -1)\<close>, or three offsets with
  \<open>0 \<le> tcpOptStart \<le> payloadStart \<le> payloadEnd \<le> len(data)\<close>; there is no
  result that mixes the two.
\<close>

theorem dataPtrs_valid_or_sentinel:
  "(case dataPtrs env p of
      (payloadStart, payloadEnd, tcpOptStart) \<Rightarrow>
        (payloadStart, payloadEnd, tcpOptStart) = (-1, -1, -1) \<or>
        (0 \<le> tcpOptStart \<and> tcpOptStart \<le> payloadStart \<and> payloadStart \<le> payloadEnd \<and>
         payloadEnd \<le> int (length (data p))))"
  using dataPtrs_cases [of env p] by auto

text \<open>
  C5.  \<open>Payload\<close> never panics.  It returns nil when \<open>HasPacket\<close> is false or \<open>dataPtrs\<close>
  reports the sentinel, and otherwise the slice \<open>data[payloadStart:payloadEnd]\<close>, whose
  elements are those of \<open>data\<close> from \<open>payloadStart\<close> up to \<open>payloadEnd\<close>.  \<open>HasPacket\<close> is
  true iff the timestamp is neither the zero time nor the forced time.
\<close>

theorem Payload_nil_or_slice:
  "(\<exists>r. Payload env p = Returns r \<and>
        (case dataPtrs env p of
           (payloadStart, payloadEnd, tcpOptStart) \<Rightarrow>
             if HasPacket p \<and> (payloadStart, payloadEnd, tcpOptStart) \<noteq> (-1, -1, -1)
             then \<exists>s. r = Some s \<and>
                    elems s = take (nat (payloadEnd - payloadStart)) (drop (nat payloadStart) (data p)) \<and>
                    array_slice (data p) payloadStart payloadEnd = Returns s
             else r = None)) \<and>
   (HasPacket p \<longleftrightarrow> Rx p \<noteq> zeroTime \<and> Rx p \<noteq> forcedTime)"
proof -
  have geometry: "dataPtrs env p = (-1, -1, -1) \<or>
      (\<exists>ps pe os. dataPtrs env p = (ps, pe, os) \<and> 0 \<le> os \<and> os \<le> ps \<and> ps \<le> pe \<and>
         pe \<le> int (length (data p)))"
    by (rule dataPtrs_cases)
  have has: "HasPacket p \<longleftrightarrow> Rx p \<noteq> zeroTime \<and> Rx p \<noteq> forcedTime"
    by (auto simp: HasPacket_def IsZero_def)
  from geometry show ?thesis
  proof
    assume "dataPtrs env p = (-1, -1, -1)"
    then show ?thesis using has by (simp add: Payload_def)
  next
    assume "\<exists>ps pe os. dataPtrs env p = (ps, pe, os) \<and> 0 \<le> os \<and> os \<le> ps \<and> ps \<le> pe \<and>
         pe \<le> int (length (data p))"
    then obtain ps pe os where g: "dataPtrs env p = (ps, pe, os)" "0 \<le> os" "os \<le> ps"
      "ps \<le> pe" "pe \<le> int (length (data p))"
      by blast
    then show ?thesis using has by (auto simp: Payload_def array_slice_def)
  qed
qed

section \<open>Socket dispatch\<close>

lemma HandleEth_no_packet:
  assumes "handler u = Some h" and "\<not> HasPacket (packets0 u)"
  shows "HandleEth env u dst =
     (case h dst (packets0 u) of
        ((k, e), dst1, packet1) \<Rightarrow> Returns (invalidate u packet1 k e dst1 1))"
  using assms by (simp add: HandleEth_def)

lemma HandleEth_Recv_fails:
  assumes "handler u = Some h" and "HasPacket (packets0 u)"
    and "Payload env (packets0 u) = Returns payload"
    and "Recv env (tcb u) (Segment env (TCP (packets0 u)) (payload_len payload)) = (Some e, t)"
  shows "HandleEth env u dst =
     Returns \<lparr>written = 0, failure = Some e, socket_after = u\<lparr>tcb := t\<rparr>, dst_after = dst,
              handler_calls = 0\<rparr>"
  using assms by (simp add: HandleEth_def)

lemma HandleEth_called_invalidates:
  assumes "HandleEth env v d = Returns r" and "0 < handler_calls r"
  shows "Rx (packets0 (socket_after r)) = zeroTime"
  using assms
  by (auto simp: HandleEth_def invalidate_def Let_def
      split: option.splits outcome.splits prod.splits if_splits)

text \<open>
  C6.  On a socket with a handler whose slot holds the forced time, \<open>HandleEth\<close> returns,
  has called the handler exactly once (its two results are the handler's), and leaves the
  slot's timestamp at the zero time with the port unchanged, so that nothing is pending;
  this does not depend on the error the handler returned.
\<close>

theorem HandleEth_forced_once:
  assumes "handler u = Some h" and "Rx (packets0 u) = forcedTime"
  shows "\<exists>r. HandleEth env u dst = Returns r \<and> handler_calls r = 1 \<and>
              (written r, failure r) = fst (h dst (packets0 u)) \<and>
              Rx (packets0 (socket_after r)) = zeroTime \<and>
              Port (socket_after r) = Port u \<and>
              \<not> IsPendingHandling (socket_after r)"
proof -
  from assms(2) have "\<not> HasPacket (packets0 u)"
    by (simp add: HasPacket_def)
  with assms(1) have run: "HandleEth env u dst =
     (case h dst (packets0 u) of
        ((k, e), dst1, packet1) \<Rightarrow> Returns (invalidate u packet1 k e dst1 1))"
    by (rule HandleEth_no_packet)
  obtain k e dst1 packet1 where call: "h dst (packets0 u) = ((k, e), dst1, packet1)"
    by (metis prod.exhaust)
  show ?thesis
    unfolding run call
    by (simp add: invalidate_def IsPendingHandling_def IsZero_def)
qed

theorem HandleEth_forced_once_witness:
  "\<exists>r. HandleEth demo_env (demo_socket 80 forcedTime) demo_dst = Returns r \<and>
       handler_calls r = 1 \<and> written r = 1 \<and> failure r = Some ''handler failed'' \<and>
       Rx (packets0 (socket_after r)) = zeroTime \<and> Port (socket_after r) = 80 \<and>
       \<not> IsPendingHandling (socket_after r)"
  using HandleEth_forced_once [of "demo_socket 80 forcedTime" demo_handler demo_env demo_dst]
  by (simp add: demo_socket_def demo_packet_def demo_handler_def)

text \<open>
  C7 as stated fails: on a closed socket (port 0) \<open>forceResponse\<close> returns true although
  the socket is not Open-Empty, and a second call returns true again.
\<close>

theorem forceResponse_closed_counterexample:
  "fst (forceResponse (Close (demo_socket 80 zeroTime))) \<and>
   \<not> (Port (Close (demo_socket 80 zeroTime)) \<noteq> 0 \<and>
      IsZero (Rx (packets0 (Close (demo_socket 80 zeroTime))))) \<and>
   fst (forceResponse (snd (forceResponse (Close (demo_socket 80 zeroTime)))))"
  by (simp add: forceResponse_def Close_def demo_socket_def IsPendingHandling_def)

text \<open>
  C7, amended.  \<open>forceResponse\<close> returns true, setting the slot's timestamp to the forced
  time, iff \<open>IsPendingHandling\<close> is false, that is iff the port is zero or the slot's
  timestamp is the zero time; otherwise it returns false and changes nothing.  A socket
  that \<open>Open\<close> has just returned is not pending, and on a socket with a nonzero port a
  second call directly after a successful one returns false.
\<close>

theorem forceResponse_iff_not_pending:
  "(fst (forceResponse u) \<longleftrightarrow> Port u = 0 \<or> IsZero (Rx (packets0 u))) \<and>
   (if IsPendingHandling u then forceResponse u = (False, u)
    else forceResponse u = (True, u\<lparr>packets0 := (packets0 u)\<lparr>Rx := forcedTime\<rparr>\<rparr>)) \<and>
   (\<forall>port h v. Open u port h = Returns v \<longrightarrow> \<not> IsPendingHandling v) \<and>
   (Port u \<noteq> 0 \<longrightarrow> fst (forceResponse u) \<longrightarrow> \<not> fst (forceResponse (snd (forceResponse u))))"
proof (intro conjI allI impI)
  show "fst (forceResponse u) \<longleftrightarrow> Port u = 0 \<or> IsZero (Rx (packets0 u))"
    by (simp add: forceResponse_def IsPendingHandling_def)
  show "if IsPendingHandling u then forceResponse u = (False, u)
    else forceResponse u = (True, u\<lparr>packets0 := (packets0 u)\<lparr>Rx := forcedTime\<rparr>\<rparr>)"
    by (simp add: forceResponse_def)
  show "\<not> IsPendingHandling v" if "Open u port h = Returns v" for port h v
    using that by (auto simp: Open_def IsPendingHandling_def IsZero_def split: if_splits)
  show "\<not> fst (forceResponse (snd (forceResponse u)))"
    if "Port u \<noteq> 0" and "fst (forceResponse u)"
    using that forcedTime_not_zero
    by (auto simp: forceResponse_def IsPendingHandling_def split: if_splits)
qed

theorem forceResponse_iff_not_pending_witness:
  "fst (forceResponse (demo_socket 80 zeroTime)) \<and>
   Rx (packets0 (snd (forceResponse (demo_socket 80 zeroTime)))) = forcedTime \<and>
   \<not> fst (forceResponse (snd (forceResponse (demo_socket 80 zeroTime)))) \<and>
   \<not> fst (forceResponse (demo_socket 80 5)) \<and>
   Open (demo_socket 0 5) 80 (Some demo_handler) = Returns (demo_socket 80 zeroTime) \<and>
   \<not> IsPendingHandling (demo_socket 80 zeroTime)"
proof -
  have opened: "Open (demo_socket 0 5) 80 (Some demo_handler) = Returns (demo_socket 80 zeroTime)"
    by (simp add: Open_def demo_socket_def demo_packet_def)
  have first: "fst (forceResponse (demo_socket 80 zeroTime))"
    by (simp add: forceResponse_def IsPendingHandling_def demo_socket_def demo_packet_def IsZero_def)
  have port: "Port (demo_socket 80 zeroTime) \<noteq> 0"
    by (simp add: demo_socket_def)
  have busy: "IsPendingHandling (demo_socket 80 5)"
    by (simp add: IsPendingHandling_def demo_socket_def demo_packet_def IsZero_def zeroTime_def)
  show ?thesis
    using forceResponse_iff_not_pending [of "demo_socket 80 zeroTime"]
      forceResponse_iff_not_pending [of "demo_socket 0 5"]
      forceResponse_iff_not_pending [of "demo_socket 80 5"]
      opened first port busy
    by (auto simp: demo_socket_def demo_packet_def)
qed

text \<open>
  C8.  On a socket with a handler whose slot holds a real packet, if the control block's
  \<open>Recv\<close> returns an error for the segment of that packet, \<open>HandleEth\<close> returns 0 and that
  error, and the handler has not been called.
\<close>

theorem HandleEth_Recv_error:
  assumes "handler u = Some h" and "HasPacket (packets0 u)"
    and "Payload env (packets0 u) = Returns payload"
    and "Recv env (tcb u) (Segment env (TCP (packets0 u)) (payload_len payload)) = (Some e, t)"
  shows "\<exists>r. HandleEth env u dst = Returns r \<and> written r = 0 \<and> failure r = Some e \<and>
              handler_calls r = 0 \<and> dst_after r = dst"
  using HandleEth_Recv_fails [OF assms, of dst] by simp

theorem HandleEth_Recv_error_witness:
  "Payload demo_env (packets0 (demo_socket 80 5)) =
     Returns (Some \<lparr>elems = [7, 8, 9], spare = [10]\<rparr>) \<and>
   Recv demo_env 0 (Segment demo_env 20 3) = (None, 1) \<and>
   HasPacket (packets0 (demo_socket 80 5)) \<and>
   (\<exists>r. HandleEth (demo_env\<lparr>Recv := \<lambda>t seg. (Some ''rejected'', t)\<rparr>) (demo_socket 80 5) demo_dst = Returns r \<and>
        written r = 0 \<and> failure r = Some ''rejected'' \<and> handler_calls r = 0 \<and> dst_after r = demo_dst)"
proof -
  have has: "HasPacket (packets0 (demo_socket 80 5))"
    by (simp add: HasPacket_def demo_socket_def demo_packet_def forcedTime_def IsZero_def zeroTime_def)
  have ptrs: "dataPtrs env' (demo_packet 5) = (0, 3, 0)"
    if "IHL env' = (\<lambda>ip. VersionAndIHL ip AND 15)" and "OffsetInBytes env' = (\<lambda>t. t)"
    for env' :: "(16 word, int, nat) tcp_env"
    using that
    by (simp add: dataPtrs_def demo_packet_def demo_ip_def SizeIPv4Header_def SizeTCPHeader_def)
  have pay: "Payload env' (packets0 (demo_socket 80 5)) =
      Returns (Some \<lparr>elems = [7, 8, 9], spare = [10]\<rparr>)"
    if "IHL env' = (\<lambda>ip. VersionAndIHL ip AND 15)" and "OffsetInBytes env' = (\<lambda>t. t)"
    for env' :: "(16 word, int, nat) tcp_env"
    using has ptrs [OF that]
    by (simp add: Payload_def demo_socket_def array_slice_def) (simp add: demo_packet_def)
  have pay1: "Payload demo_env (packets0 (demo_socket 80 5)) =
      Returns (Some \<lparr>elems = [7, 8, 9], spare = [10]\<rparr>)"
    by (rule pay) (simp_all add: demo_env_def)
  have pay2: "Payload (demo_env\<lparr>Recv := \<lambda>t seg. (Some ''rejected'', t)\<rparr>) (packets0 (demo_socket 80 5)) =
      Returns (Some \<lparr>elems = [7, 8, 9], spare = [10]\<rparr>)"
    by (rule pay) (simp_all add: demo_env_def)
  have hd: "handler (demo_socket 80 5) = Some demo_handler"
    by (simp add: demo_socket_def)
  have rc: "Recv (demo_env\<lparr>Recv := \<lambda>t seg. (Some ''rejected'', t)\<rparr>) (tcb (demo_socket 80 5))
      (Segment (demo_env\<lparr>Recv := \<lambda>t seg. (Some ''rejected'', t)\<rparr>) (TCP (packets0 (demo_socket 80 5)))
         (payload_len (Some \<lparr>elems = [7, 8, 9], spare = [10]\<rparr>))) = (Some ''rejected'', 0)"
    by (simp add: demo_socket_def)
  have ok: "Recv demo_env 0 (Segment demo_env 20 3) = (None, 1)"
    by (simp add: demo_env_def)
  show ?thesis
    using HandleEth_Recv_error [OF hd has pay2 rc, of demo_dst] pay1 ok has by simp
qed

text \<open>
  C10.  In the same situation (a real packet, \<open>Recv\<close> returns an error) \<open>HandleEth\<close> leaves
  the slot as it was: the timestamp is unchanged, the packet is still there, and
  \<open>IsPendingHandling\<close> is as before, hence true on a socket with a nonzero port.  On every
  call that did invoke the handler the slot's timestamp is the zero time afterwards.
\<close>

theorem HandleEth_Recv_error_keeps_packet:
  assumes "handler u = Some h" and "HasPacket (packets0 u)"
    and "Payload env (packets0 u) = Returns payload"
    and "Recv env (tcb u) (Segment env (TCP (packets0 u)) (payload_len payload)) = (Some e, t)"
  shows "(\<exists>r. HandleEth env u dst = Returns r \<and>
              packets0 (socket_after r) = packets0 u \<and>
              Rx (packets0 (socket_after r)) = Rx (packets0 u) \<and>
              HasPacket (packets0 (socket_after r)) \<and>
              (IsPendingHandling (socket_after r) \<longleftrightarrow> IsPendingHandling u) \<and>
              (Port u \<noteq> 0 \<longrightarrow> IsPendingHandling (socket_after r))) \<and>
         (\<forall>v d r. HandleEth env v d = Returns r \<longrightarrow> 0 < handler_calls r \<longrightarrow>
              Rx (packets0 (socket_after r)) = zeroTime \<and> \<not> IsPendingHandling (socket_after r))"
proof (rule conjI)
  have run: "HandleEth env u dst =
     Returns \<lparr>written = 0, failure = Some e, socket_after = u\<lparr>tcb := t\<rparr>, dst_after = dst,
              handler_calls = 0\<rparr>"
    using assms by (rule HandleEth_Recv_fails)
  from assms(2) have "\<not> IsZero (Rx (packets0 u))"
    by (simp add: HasPacket_def)
  then show "\<exists>r. HandleEth env u dst = Returns r \<and>
              packets0 (socket_after r) = packets0 u \<and>
              Rx (packets0 (socket_after r)) = Rx (packets0 u) \<and>
              HasPacket (packets0 (socket_after r)) \<and>
              (IsPendingHandling (socket_after r) \<longleftrightarrow> IsPendingHandling u) \<and>
              (Port u \<noteq> 0 \<longrightarrow> IsPendingHandling (socket_after r))"
    unfolding run using assms(2) by (simp add: IsPendingHandling_def)
next
  show "\<forall>v d r. HandleEth env v d = Returns r \<longrightarrow> 0 < handler_calls r \<longrightarrow>
              Rx (packets0 (socket_after r)) = zeroTime \<and> \<not> IsPendingHandling (socket_after r)"
  proof (intro allI impI)
    fix v d r
    assume "HandleEth env v d = Returns r" and "0 < handler_calls r"
    then have "Rx (packets0 (socket_after r)) = zeroTime"
      by (rule HandleEth_called_invalidates)
    then show "Rx (packets0 (socket_after r)) = zeroTime \<and> \<not> IsPendingHandling (socket_after r)"
      by (simp add: IsPendingHandling_def IsZero_def)
  qed
qed

theorem HandleEth_Recv_error_keeps_packet_witness:
  "(\<exists>r. HandleEth (demo_env\<lparr>Recv := \<lambda>t seg. (Some ''rejected'', t)\<rparr>) (demo_socket 80 5) demo_dst = Returns r \<and>
        Rx (packets0 (socket_after r)) = 5 \<and> HasPacket (packets0 (socket_after r)) \<and>
        IsPendingHandling (socket_after r)) \<and>
   (\<exists>r. HandleEth demo_env (demo_socket 80 5) demo_dst = Returns r \<and> handler_calls r = 1 \<and>
        Rx (packets0 (socket_after r)) = zeroTime \<and> \<not> IsPendingHandling (socket_after r))"
proof -
  let ?env = "demo_env\<lparr>Recv := \<lambda>t seg. (Some ''rejected'', t)\<rparr>"
  have has: "HasPacket (packets0 (demo_socket 80 5))"
    by (simp add: HasPacket_def demo_socket_def demo_packet_def forcedTime_def IsZero_def zeroTime_def)
  have ptrs: "dataPtrs env' (demo_packet 5) = (0, 3, 0)"
    if "IHL env' = (\<lambda>ip. VersionAndIHL ip AND 15)" and "OffsetInBytes env' = (\<lambda>t. t)"
    for env' :: "(16 word, int, nat) tcp_env"
    using that
    by (simp add: dataPtrs_def demo_packet_def demo_ip_def SizeIPv4Header_def SizeTCPHeader_def)
  have pay: "Payload env' (packets0 (demo_socket 80 5)) =
      Returns (Some \<lparr>elems = [7, 8, 9], spare = [10]\<rparr>)"
    if "IHL env' = (\<lambda>ip. VersionAndIHL ip AND 15)" and "OffsetInBytes env' = (\<lambda>t. t)"
    for env' :: "(16 word, int, nat) tcp_env"
    using has ptrs [OF that]
    by (simp add: Payload_def demo_socket_def array_slice_def) (simp add: demo_packet_def)
  have pay1: "Payload demo_env (packets0 (demo_socket 80 5)) =
      Returns (Some \<lparr>elems = [7, 8, 9], spare = [10]\<rparr>)"
    by (rule pay) (simp_all add: demo_env_def)
  have pay2: "Payload ?env (packets0 (demo_socket 80 5)) =
      Returns (Some \<lparr>elems = [7, 8, 9], spare = [10]\<rparr>)"
    by (rule pay) (simp_all add: demo_env_def)
  have hd: "handler (demo_socket 80 5) = Some demo_handler"
    by (simp add: demo_socket_def)
  have rc: "Recv ?env (tcb (demo_socket 80 5))
      (Segment ?env (TCP (packets0 (demo_socket 80 5)))
         (payload_len (Some \<lparr>elems = [7, 8, 9], spare = [10]\<rparr>))) = (Some ''rejected'', 0)"
    by (simp add: demo_socket_def)
  have port: "Port (demo_socket 80 5) \<noteq> 0" and rx: "Rx (packets0 (demo_socket 80 5)) = 5"
    by (simp_all add: demo_socket_def demo_packet_def)
  have good: "HandleEth demo_env (demo_socket 80 5) demo_dst =
      Returns (invalidate ((demo_socket 80 5)\<lparr>tcb := 1\<rparr>) ((demo_packet 5)\<lparr>Rx := 99\<rparr>) 1
        (Some ''handler failed'') (demo_dst\<lparr>elems := [0]\<rparr>) 1)"
    using has pay1 hd
    by (simp add: HandleEth_def) (simp add: demo_env_def demo_socket_def payload_len_def slen_def
        demo_packet_def demo_handler_def)
  from HandleEth_Recv_error_keeps_packet [OF hd has pay2 rc, of demo_dst]
  have first: "\<exists>r. HandleEth ?env (demo_socket 80 5) demo_dst = Returns r \<and>
        Rx (packets0 (socket_after r)) = 5 \<and> HasPacket (packets0 (socket_after r)) \<and>
        IsPendingHandling (socket_after r)"
    and second: "\<forall>v d r. HandleEth ?env v d = Returns r \<longrightarrow> 0 < handler_calls r \<longrightarrow>
        Rx (packets0 (socket_after r)) = zeroTime \<and> \<not> IsPendingHandling (socket_after r)"
    using port rx by auto
  have "\<exists>r. HandleEth demo_env (demo_socket 80 5) demo_dst = Returns r \<and> handler_calls r = 1 \<and>
        Rx (packets0 (socket_after r)) = zeroTime \<and> \<not> IsPendingHandling (socket_after r)"
    unfolding good by (simp add: invalidate_def IsPendingHandling_def IsZero_def)
  with first show ?thesis by blast
qed

section \<open>DHCP server\<close>

lemma slen_write_at [simp]: "slen (write_at s off bs) = slen s"
  by (auto simp: write_at_def slen_def)

lemma scap_write_at [simp]: "scap (write_at s off bs) = scap s"
  by (auto simp: write_at_def scap_def slen_def)

lemma encode_options_shape:
  assumes "encode_options s ptr opts = (s1, ptr1)"
  shows "slen s1 = slen s \<and> scap s1 = scap s \<and>
         ptr1 = ptr + sum_list (map (\<lambda>opt. 2 + slen (Data opt)) opts)"
  using assms
proof (induction opts arbitrary: s ptr)
  case Nil
  then show ?case by simp
next
  case (Cons opt opts)
  then show ?case
    by (simp add: encodeDHCPOption_def) fastforce
qed

lemma sent_size: "dhcpOffset + sizeDHCPTotal = 590"
  by (simp add: dhcpOffset_def sizeDHCPTotal_def SizeEthernetHeader_def SizeIPv4Header_def
      SizeUDPHeader_def SizeDHCPHeader_def sizeSName_def sizeFILE_def sizeOptions_def)

lemma respond_nbytes:
  assumes "respond env d resp packet m client rcvHdr Options = Returns r"
  shows "nbytes r = dhcpOffset + sizeDHCPTotal \<and> uerr r = None \<and>
         server_after r = d\<lparr>hosts := (hosts d)(m \<mapsto> client)\<rparr>"
  using assms
  by (auto simp: respond_def Let_def split: prod.splits if_splits outcome.splits)

text \<open>
  The response part returns when the buffer has a capacity of 590 bytes, the server has an
  IPv4 address and the encoded options are short enough for the end mark to fit.
\<close>

lemma respond_returns:
  assumes "sizeDHCPTotal \<le> int (slen resp)" and "dhcpOffset + sizeDHCPTotal \<le> int (scap resp)"
    and "As4 (siaddr d) = Returns server"
    and "sum_list (map (\<lambda>opt. 2 + slen (Data opt)) Options) < 266"
  shows "\<exists>r. respond env d resp packet m client rcvHdr Options = Returns r \<and> nbytes r = 590 \<and>
              uerr r = None \<and> server_after r = d\<lparr>hosts := (hosts d)(m \<mapsto> client)\<rparr>"
proof -
  have sizes: "dhcpOffset = 42" "optionsStart = 278" "sizeDHCPTotal = 548"
    by (simp_all add: dhcpOffset_def optionsStart_def sizeDHCPTotal_def SizeEthernetHeader_def
        SizeIPv4Header_def SizeUDPHeader_def SizeDHCPHeader_def sizeSName_def sizeFILE_def
        sizeOptions_def)
  define resp1 where "resp1 = resp\<lparr>elems := take 56 (elems resp) @ replicate (slen resp - 56) 0\<rparr>"
  define resp3 where
    "resp3 = write_at (write_at resp1 42 (PutDHCPHeader env rcvHdr)) 278 [0x63, 0x82, 0x53, 0x63]"
  obtain resp4 ptr where enc: "encode_options resp3 282 Options = (resp4, ptr)"
    by (metis prod.exhaust)
  have len1: "slen resp1 = slen resp" and cap1: "scap resp1 = scap resp"
    using assms(1) by (auto simp: resp1_def slen_def scap_def sizes)
  have len4: "slen resp4 = slen resp" and cap4: "scap resp4 = scap resp"
    and ptr: "ptr = 282 + sum_list (map (\<lambda>opt. 2 + slen (Data opt)) Options)"
    using encode_options_shape [OF enc] by (simp_all add: resp3_def len1 cap1)
  have room: "ptr < slen resp4"
    using assms(1,4) ptr len4 by (simp add: sizes)
  define resp5 where "resp5 = resp4\<lparr>elems := (elems resp4)[ptr := 0xFF]\<rparr>"
  have "scap resp5 = scap resp"
    using cap4 by (simp add: resp5_def scap_def)
  then obtain payload where payload: "reslice resp5 42 590 = Returns payload"
    using assms(2) by (simp add: reslice_def sizes)
  obtain packet1 where packet1:
    "setResponseUDP env d (dhcpclient.port client) packet payload = Returns packet1"
    using assms(3) by (simp add: setResponseUDP_def Let_def)
  have "respond env d resp packet m client rcvHdr Options =
      Returns \<lparr>nbytes = 590, uerr = None, server_after = d\<lparr>hosts := (hosts d)(m \<mapsto> client)\<rparr>,
               resp_after = write_at resp5 0 (udpPutHeaders env packet1),
               packet_after = packet1\<rparr>"
    using room payload packet1 enc
    by (simp add: respond_def Let_def sizes resp3_def [symmetric] resp1_def [symmetric]
        resp5_def [symmetric])
  then show ?thesis
    by simp
qed

text \<open>\<open>HandleUDP\<close> returns 0 with nothing changed, or 590 and no error.\<close>

lemma HandleUDP_returns_cases:
  assumes "HandleUDP env d resp packet = Returns r"
  shows "(nbytes r = 0 \<and> server_after r = d \<and> resp_after r = resp \<and> packet_after r = packet) \<or>
         (nbytes r = 590 \<and> uerr r = None)"
  using assms
  unfolding HandleUDP_def Let_def
  by (auto simp: sent_size split: if_splits outcome.splits prod.splits bool.splits
      dest!: respond_nbytes)

text \<open>
  \<open>HandleUDP\<close> once the three early returns are passed and \<open>parseDHCP\<close> has returned
  without an error: what remains is the test of the server address, the \<open>switch\<close> and
  the response.
\<close>

lemma HandleUDP_parsed:
  assumes "udpHasPacket env packet"
    and "sizeDHCPTotal \<le> int (slen resp)"
    and "SizeDHCPHeader \<le> int (slen (udpPayload env packet))"
    and "hosts d (EthernetHeader.Source (Eth packet)) = known"
    and "parseDHCP env (udpPayload env packet) (Some visit_option)
           (case known of None \<Rightarrow> dhcpclient_zero | Some c \<Rightarrow> c, 0) =
         Returns (rcvHdr, None, (client1, msgType))"
  shows "HandleUDP env d resp packet =
     (case (if msgType \<noteq> 1
            then (case As4 (siaddr d) of
                    Panic e \<Rightarrow> Panic e
                  | Returns server \<Rightarrow> Returns (SIAddr rcvHdr \<noteq> server))
            else Returns False) of
        Panic e \<Rightarrow> Panic e
      | Returns other \<Rightarrow>
          if other
          then Returns \<lparr>nbytes = 0, uerr = None, server_after = d, resp_after = resp,
                        packet_after = packet\<rparr>
          else
            (case dhcp_switch d packet client1 msgType rcvHdr of
               Panic e \<Rightarrow> Panic e
             | Returns (err1, rcvHdr1, Options, client2) \<Rightarrow>
                 if err1 \<noteq> None
                 then Returns \<lparr>nbytes = 0, uerr = None, server_after = d, resp_after = resp,
                               packet_after = packet\<rparr>
                 else respond env d resp packet (EthernetHeader.Source (Eth packet)) client2
                        rcvHdr1 Options))"
  using assms unfolding HandleUDP_def Let_def by simp

text \<open>
  The drops that \<open>HandleUDP\<close> does make: a Discover outside state None, a Request outside
  state WaitingForOffer, and any message other than a Discover whose header names another
  server, all return 0 bytes and no error and change nothing.
\<close>

lemma HandleUDP_silent_drop:
  assumes "udpHasPacket env packet"
    and "sizeDHCPTotal \<le> int (slen resp)"
    and "SizeDHCPHeader \<le> int (slen (udpPayload env packet))"
    and "hosts d (EthernetHeader.Source (Eth packet)) = known"
    and "parseDHCP env (udpPayload env packet) (Some visit_option)
           (case known of None \<Rightarrow> dhcpclient_zero | Some c \<Rightarrow> c, 0) =
         Returns (rcvHdr, None, (client1, msgType))"
    and "As4 (siaddr d) = Returns server"
    and "(msgType = 1 \<and> state client1 \<noteq> dhcpStateNone) \<or>
         (msgType = 3 \<and> state client1 \<noteq> dhcpStateWaitOffer) \<or>
         (msgType \<noteq> 1 \<and> SIAddr rcvHdr \<noteq> server)"
  shows "HandleUDP env d resp packet =
     Returns \<lparr>nbytes = 0, uerr = None, server_after = d, resp_after = resp,
              packet_after = packet\<rparr>"
  unfolding HandleUDP_parsed [OF assms(1-5)]
  using assms(6,7) by (auto simp: dhcp_switch_def)

lemma dhcp_switch_discover:
  assumes "state client = dhcpStateNone" and "As4 (addr client) = Returns requested"
    and "As4 (siaddr d) = Returns server"
  shows "dhcp_switch d packet client 1 rcvHdr =
     Returns (None,
       rcvHdr\<lparr>YIAddr := (if requested \<noteq> (0, 0, 0, 0) then requested else (192, 168, 1, 2)),
               SIAddr := server\<rparr>,
       [\<lparr>Opt = DHCP_MessageType, Data = \<lparr>elems = [2], spare = []\<rparr>\<rparr>],
       client\<lparr>dhcpclient.port := SourcePort (UDP packet), state := dhcpStateWaitOffer\<rparr>)"
  using assms by (simp add: dhcp_switch_def next_addr_def)

lemma dhcp_switch_discover_zero_addr:
  "dhcp_switch d packet dhcpclient_zero 1 h = Panic As4ZeroAddr"
  by (simp add: dhcp_switch_def dhcpclient_zero_def dhcpStateNone_def)

lemma demo_resp_long: "sizeDHCPTotal \<le> int (slen demo_resp)"
  by (simp add: demo_resp_def slen_def sizeDHCPTotal_def SizeDHCPHeader_def sizeSName_def
      sizeFILE_def sizeOptions_def)

lemma options_payload_long: "SizeDHCPHeader \<le> int (slen (options_payload opts))"
  by (simp add: options_payload_def slen_def SizeDHCPHeader_def)

lemma parse_options_one:
  assumes "length opts = 4" and "opts ! 0 \<noteq> 0xFF" and "opts ! 1 = 1"
    and "fn st \<lparr>Opt = opts ! 0, Data = \<lparr>elems = [opts ! 2], spare = [opts ! 3]\<rparr>\<rparr> = (None, st1)"
  shows "parse_options fn (options_payload opts) 240 st = Returns (None, st1)"
proof -
  obtain a b c e where opts: "opts = [a, b, c, e]"
    using assms(1) by (auto simp: length_Suc_conv numeral_eq_Suc)
  have tail: "parse_options fn (options_payload opts) 243 st1 = Returns (None, st1)"
    by (subst parse_options.simps) (simp add: options_payload_def slen_def opts)
  show ?thesis
    using assms(2-) tail
    by (subst parse_options.simps)
      (simp add: options_payload_def slen_def opts nth_append reslice_def scap_def)
qed

lemma visit_message_type:
  "visit_option (client, m) \<lparr>Opt = 53, Data = \<lparr>elems = [t], spare = sp\<rparr>\<rparr> = (None, (client, t))"
  by (simp add: visit_option_def DHCP_MessageType_def slen_def)

lemma parseDHCP_message_type:
  assumes "t \<noteq> 0"
  shows "parseDHCP env (options_payload [53, 1, t, 255]) (Some visit_option) (client, 0) =
     Returns (DecodeDHCPHeader env (options_payload [53, 1, t, 255]), None, (client, t))"
proof -
  have "parse_options visit_option (options_payload [53, 1, t, 255]) 240 (client, 0) =
      Returns (None, (client, t))"
    by (rule parse_options_one) (simp_all add: visit_message_type)
  then show ?thesis
    by (simp add: parseDHCP_def options_payload_def slen_def SizeDHCPHeader_def sizeSName_def
        sizeFILE_def)
qed

lemma parse_options_discover_requesting:
  "parse_options visit_option (options_payload [53, 1, 1, 50, 4, a, b, c, e, 255]) 240
     (dhcpclient_zero, 0) =
   Returns (None, (dhcpclient_zero\<lparr>addr := Addr4 (a, b, c, e)\<rparr>, 1))"
proof -
  let ?s = "options_payload [53, 1, 1, 50, 4, a, b, c, e, 255]"
  have third: "parse_options visit_option ?s 249 st = Returns (None, st)" for st
    by (subst parse_options.simps) (simp add: options_payload_def slen_def)
  have second: "parse_options visit_option ?s 243 (dhcpclient_zero, 1) =
      Returns (None, (dhcpclient_zero\<lparr>addr := Addr4 (a, b, c, e)\<rparr>, 1))"
    by (subst parse_options.simps)
      (simp add: options_payload_def slen_def nth_append reslice_def scap_def visit_option_def
        DHCP_MessageType_def DHCP_ParameterRequestList_def DHCP_RequestedIPaddress_def
        dhcpclient_zero_def dhcpStateNone_def AddrFrom4_def
        third [unfolded options_payload_def dhcpclient_zero_def, simplified])
  show ?thesis
    by (subst parse_options.simps)
      (simp add: options_payload_def slen_def nth_append reslice_def scap_def visit_option_def
        DHCP_MessageType_def second [unfolded options_payload_def, simplified])
qed

lemma parse_options_past_capacity:
  "parse_options fn (options_payload [53, 10]) 240 st = Panic SliceBoundsOutOfRange"
  by (subst parse_options.simps)
    (simp add: options_payload_def slen_def nth_append reslice_def scap_def)

lemma parse_options_past_length:
  "parse_options record_option ((options_payload [53, 10])\<lparr>spare := [1, 2, 3, 4, 5, 6, 7, 8, 9, 10]\<rparr>)
     240 [] =
   Returns (None, [\<lparr>Opt = 53, Data = \<lparr>elems = [1, 2, 3, 4, 5, 6, 7, 8, 9, 10], spare = []\<rparr>\<rparr>])"
proof -
  let ?s = "(options_payload [53, 10])\<lparr>spare := [1, 2, 3, 4, 5, 6, 7, 8, 9, 10]\<rparr>"
  have tail: "parse_options record_option ?s 252 seen = Returns (None, seen)" for seen
    by (subst parse_options.simps) (simp add: options_payload_def slen_def)
  show ?thesis
    by (subst parse_options.simps)
      (simp add: options_payload_def slen_def nth_append reslice_def scap_def record_option_def
        tail [unfolded options_payload_def, simplified])
qed

text \<open>
  A Discover that does carry a Requested-IP-Address option \<open>a.b.c.e\<close>, from a hardware
  address without a record: \<open>HandleUDP\<close> returns 590 bytes, the record of the sender is in
  state WaitingForOffer with the sender's UDP port, and the response is built from the
  received header with \<open>YIAddr\<close> set to the requested address (192.168.1.2 when that
  address is 0.0.0.0) and \<open>SIAddr\<close> to the server's, and from the single option 53 with
  value 2 (Offer).
\<close>

lemma HandleUDP_discover_with_requested_address:
  fixes env :: "('h, 'u) dhcp_env" and a b c e :: byte and server :: ip4
    and port0 :: "16 word" and mac0 :: hw6
  defines "payload \<equiv> options_payload [53, 1, 1, 50, 4, a, b, c, e, 255]"
  defines "env1 \<equiv> env\<lparr>udpHasPacket := \<lambda>p. True, udpPayload := \<lambda>p. payload\<rparr>"
  defines "d \<equiv> NewDHCPServer port0 mac0 (Addr4 server)"
  shows "\<exists>r. HandleUDP env1 d demo_resp packet = Returns r \<and> nbytes r = 590 \<and> uerr r = None \<and>
     hosts (server_after r) (EthernetHeader.Source (Eth packet)) =
       Some \<lparr>addr = Addr4 (a, b, c, e), state = dhcpStateWaitOffer,
             port = SourcePort (UDP packet), requestlist = replicate 10 0\<rparr> \<and>
     respond env1 d demo_resp packet (EthernetHeader.Source (Eth packet))
       \<lparr>addr = Addr4 (a, b, c, e), state = dhcpStateWaitOffer,
        port = SourcePort (UDP packet), requestlist = replicate 10 0\<rparr>
       ((DecodeDHCPHeader env payload)
          \<lparr>YIAddr := (if (a, b, c, e) \<noteq> (0, 0, 0, 0) then (a, b, c, e) else (192, 168, 1, 2)),
           SIAddr := server\<rparr>)
       [\<lparr>Opt = 53, Data = \<lparr>elems = [2], spare = []\<rparr>\<rparr>] = Returns r"
proof -
  let ?m = "EthernetHeader.Source (Eth packet)"
  let ?client = "\<lparr>addr = Addr4 (a, b, c, e), state = dhcpStateWaitOffer,
     port = SourcePort (UDP packet), requestlist = replicate 10 0\<rparr>"
  let ?hdr = "(DecodeDHCPHeader env payload)
     \<lparr>YIAddr := (if (a, b, c, e) \<noteq> (0, 0, 0, 0) then (a, b, c, e) else (192, 168, 1, 2)),
      SIAddr := server\<rparr>"
  let ?offer = "[\<lparr>Opt = 53, Data = \<lparr>elems = [2], spare = []\<rparr>\<rparr>]"
  have has: "udpHasPacket env1 packet"
    and long: "SizeDHCPHeader \<le> int (slen (udpPayload env1 packet))"
    by (simp_all add: env1_def payload_def options_payload_long)
  have fresh: "hosts d ?m = None" and server: "As4 (siaddr d) = Returns server"
    by (simp_all add: d_def NewDHCPServer_def)
  have parsed: "parseDHCP env1 (udpPayload env1 packet) (Some visit_option)
      (case None of None \<Rightarrow> dhcpclient_zero | Some c \<Rightarrow> c, 0) =
     Returns (DecodeDHCPHeader env payload, None, (dhcpclient_zero\<lparr>addr := Addr4 (a, b, c, e)\<rparr>, 1))"
    using parse_options_discover_requesting [of a b c e]
    by (simp add: parseDHCP_def env1_def payload_def Let_def)
      (simp add: options_payload_def slen_def SizeDHCPHeader_def sizeSName_def sizeFILE_def)
  have switch: "dhcp_switch d packet (dhcpclient_zero\<lparr>addr := Addr4 (a, b, c, e)\<rparr>) 1
      (DecodeDHCPHeader env payload) = Returns (None, ?hdr, ?offer, ?client)"
    using dhcp_switch_discover [of "dhcpclient_zero\<lparr>addr := Addr4 (a, b, c, e)\<rparr>" "(a, b, c, e)"
        d server packet "DecodeDHCPHeader env payload"] server
    by (simp add: dhcpclient_zero_def dhcpStateNone_def DHCP_MessageType_def)
  have run: "HandleUDP env1 d demo_resp packet =
      respond env1 d demo_resp packet ?m ?client ?hdr ?offer"
    unfolding HandleUDP_parsed [OF has demo_resp_long long fresh parsed]
    by (simp add: switch)
  have "dhcpOffset + sizeDHCPTotal \<le> int (scap demo_resp)"
    by (simp add: sent_size demo_resp_def scap_def)
  from respond_returns [OF demo_resp_long this server, of ?offer env1 packet ?m ?client ?hdr]
  obtain r where "respond env1 d demo_resp packet ?m ?client ?hdr ?offer = Returns r"
    and "nbytes r = 590" and "uerr r = None"
    and "server_after r = d\<lparr>hosts := (hosts d)(?m \<mapsto> ?client)\<rparr>"
    by (auto simp: slen_def)
  then show ?thesis
    unfolding run by simp
qed

text \<open>
  C2, at a failing input.  The payload is 242 bytes long and ends with the tag 53 and the
  length byte 10, with no data byte after them.  The length byte passes the loop condition
  (10 is less than 242), and the slice expression \<open>incpayload[242:252]\<close> reaches past the
  end of the payload: when the capacity of \<open>incpayload\<close> is its length, \<open>parseDHCP\<close>
  panics for every callback; when ten more bytes of the backing array lie behind the
  payload, the callback is handed exactly these ten bytes as the data of option 53.
\<close>

theorem parseDHCP_slices_past_end:
  "parseDHCP env (options_payload [53, 10]) (Some fn) st = Panic SliceBoundsOutOfRange \<and>
   slen ((options_payload [53, 10])\<lparr>spare := [1, 2, 3, 4, 5, 6, 7, 8, 9, 10]\<rparr>) = 242 \<and>
   parseDHCP env ((options_payload [53, 10])\<lparr>spare := [1, 2, 3, 4, 5, 6, 7, 8, 9, 10]\<rparr>)
       (Some record_option) [] =
     Returns (DecodeDHCPHeader env ((options_payload [53, 10])\<lparr>spare := [1, 2, 3, 4, 5, 6, 7, 8, 9, 10]\<rparr>),
       None, [\<lparr>Opt = 53, Data = \<lparr>elems = [1, 2, 3, 4, 5, 6, 7, 8, 9, 10], spare = []\<rparr>\<rparr>])"
proof -
  have start: "nat (SizeDHCPHeader + sizeSName + sizeFILE + 4) = 240"
    by (simp add: SizeDHCPHeader_def sizeSName_def sizeFILE_def)
  have len1: "slen (options_payload [53, 10]) = 242"
    and len2: "slen ((options_payload [53, 10])\<lparr>spare := [1, 2, 3, 4, 5, 6, 7, 8, 9, 10]\<rparr>) = 242"
    by (simp_all add: options_payload_def slen_def)
  have first: "parseDHCP env (options_payload [53, 10]) (Some fn) st = Panic SliceBoundsOutOfRange"
    unfolding parseDHCP_def Let_def start len1
    by (simp add: parse_options_past_capacity)
      (simp add: SizeDHCPHeader_def sizeSName_def sizeFILE_def)
  have second: "parseDHCP env ((options_payload [53, 10])\<lparr>spare := [1, 2, 3, 4, 5, 6, 7, 8, 9, 10]\<rparr>)
       (Some record_option) [] =
     Returns (DecodeDHCPHeader env ((options_payload [53, 10])\<lparr>spare := [1, 2, 3, 4, 5, 6, 7, 8, 9, 10]\<rparr>),
       None, [\<lparr>Opt = 53, Data = \<lparr>elems = [1, 2, 3, 4, 5, 6, 7, 8, 9, 10], spare = []\<rparr>\<rparr>])"
    unfolding parseDHCP_def Let_def start len2
    by (simp add: parse_options_past_length)
      (simp add: SizeDHCPHeader_def sizeSName_def sizeFILE_def)
  from first len2 second show ?thesis
    by (intro conjI)
qed

text \<open>
  C3, at a failing input.  A Discover (message type 1) that carries no Requested-IP-Address
  option, sent from a hardware address the server has no record of (so its record is the
  default one, in state None): the client's address is still the zero \<open>netip.Addr\<close>, and
  \<open>HandleUDP\<close> panics in \<open>client.addr.As4()\<close> instead of assigning the fallback address
  192.168.1.2.  This holds for every server, whatever its port, hardware address and
  address.
\<close>

theorem HandleUDP_discover_without_requested_address:
  "HandleUDP (env\<lparr>udpHasPacket := \<lambda>p. True, udpPayload := \<lambda>p. options_payload [53, 1, 1, 255]\<rparr>)
     (NewDHCPServer port0 mac0 siaddr0) demo_resp packet = Panic As4ZeroAddr"
proof -
  let ?env = "env\<lparr>udpHasPacket := \<lambda>p. True, udpPayload := \<lambda>p. options_payload [53, 1, 1, 255]\<rparr>"
  let ?d = "NewDHCPServer port0 mac0 siaddr0"
  have fresh: "hosts ?d (EthernetHeader.Source (Eth packet)) = None"
    by (simp add: NewDHCPServer_def)
  have parsed: "parseDHCP ?env (udpPayload ?env packet) (Some visit_option)
      (case None of None \<Rightarrow> dhcpclient_zero | Some c \<Rightarrow> c, 0) =
     Returns (DecodeDHCPHeader ?env (options_payload [53, 1, 1, 255]), None, (dhcpclient_zero, 1))"
    using parseDHCP_message_type [of 1 ?env dhcpclient_zero] by simp
  have "udpHasPacket ?env packet"
    by simp
  moreover have "SizeDHCPHeader \<le> int (slen (udpPayload ?env packet))"
    by (simp add: options_payload_long)
  ultimately show ?thesis
    using demo_resp_long fresh parsed
    by (simp add: HandleUDP_parsed [where known = None] dhcp_switch_discover_zero_addr)
qed

text \<open>
  C4, at a failing input.  A DHCP Release (message type 7) whose header names this server,
  sent from a hardware address the server has never seen, is the wrong message for state
  None; yet \<open>HandleUDP\<close> returns 590 bytes and no error, and has entered a record for the
  sender in \<open>hosts\<close>.  The \<open>switch\<close> has no case for message types other than 1 and 3.
\<close>

theorem HandleUDP_release_is_answered:
  "\<exists>r. HandleUDP (env\<lparr>udpHasPacket := \<lambda>p. True,
                       udpPayload := \<lambda>p. options_payload [53, 1, 7, 255],
                       DecodeDHCPHeader := \<lambda>s. h\<lparr>SIAddr := (192, 168, 1, 1)\<rparr>\<rparr>)
          (NewDHCPServer port0 mac0 (Addr4 (192, 168, 1, 1))) demo_resp packet = Returns r \<and>
       nbytes r = 590 \<and> uerr r = None \<and>
       hosts (server_after r) (EthernetHeader.Source (Eth packet)) = Some dhcpclient_zero"
proof -
  let ?env = "env\<lparr>udpHasPacket := \<lambda>p. True, udpPayload := \<lambda>p. options_payload [53, 1, 7, 255],
                  DecodeDHCPHeader := \<lambda>s. h\<lparr>SIAddr := (192, 168, 1, 1)\<rparr>\<rparr>"
  let ?d = "NewDHCPServer port0 mac0 (Addr4 (192, 168, 1, 1))"
  let ?m = "EthernetHeader.Source (Eth packet)"
  have fresh: "hosts ?d ?m = None"
    by (simp add: NewDHCPServer_def)
  have server: "As4 (siaddr ?d) = Returns (192, 168, 1, 1)"
    by (simp add: NewDHCPServer_def)
  have parsed: "parseDHCP ?env (udpPayload ?env packet) (Some visit_option)
      (case None of None \<Rightarrow> dhcpclient_zero | Some c \<Rightarrow> c, 0) =
     Returns (h\<lparr>SIAddr := (192, 168, 1, 1)\<rparr>, None, (dhcpclient_zero, 7))"
    using parseDHCP_message_type [of 7 ?env dhcpclient_zero] by simp
  have switch: "dhcp_switch ?d packet dhcpclient_zero 7 (h\<lparr>SIAddr := (192, 168, 1, 1)\<rparr>) =
      Returns (None, h\<lparr>SIAddr := (192, 168, 1, 1)\<rparr>, [], dhcpclient_zero)"
    by (simp add: dhcp_switch_def)
  have has: "udpHasPacket ?env packet"
    by simp
  have long: "SizeDHCPHeader \<le> int (slen (udpPayload ?env packet))"
    by (simp add: options_payload_long)
  have run: "HandleUDP ?env ?d demo_resp packet =
      respond ?env ?d demo_resp packet ?m dhcpclient_zero (h\<lparr>SIAddr := (192, 168, 1, 1)\<rparr>) []"
    unfolding HandleUDP_parsed [OF has demo_resp_long long fresh parsed]
    by (simp add: server switch)
  have "dhcpOffset + sizeDHCPTotal \<le> int (scap demo_resp)"
    by (simp add: sent_size demo_resp_def scap_def)
  from respond_returns [OF demo_resp_long this server, of "[]" ?env packet ?m dhcpclient_zero
      "h\<lparr>SIAddr := (192, 168, 1, 1)\<rparr>"]
  obtain r where r: "respond ?env ?d demo_resp packet ?m dhcpclient_zero
      (h\<lparr>SIAddr := (192, 168, 1, 1)\<rparr>) [] = Returns r"
    by auto
  from respond_nbytes [OF r] show ?thesis
    unfolding run r by (simp add: sent_size)
qed

text \<open>
  C9.  Whenever \<open>HandleUDP\<close> returns 0 as its number of bytes, the server (and with it the
  \<open>hosts\<close> table, so that no record was created or changed), the response buffer and the
  packet are as they were before the call.
\<close>

theorem HandleUDP_zero_bytes_unchanged:
  assumes "HandleUDP env d resp packet = Returns r" and "nbytes r = 0"
  shows "server_after r = d \<and> hosts (server_after r) = hosts d \<and> resp_after r = resp \<and>
         packet_after r = packet"
  using HandleUDP_returns_cases [OF assms(1)] assms(2) by auto

theorem HandleUDP_zero_bytes_unchanged_witness:
  "(\<exists>r. HandleUDP (demo_dhcp_env (options_payload [53, 1, 3, 255]))
          (NewDHCPServer 67 (1, 2, 3, 4, 5, 6) (Addr4 (192, 168, 1, 1))) demo_resp demo_udp_packet =
        Returns r \<and> nbytes r = 0 \<and> uerr r = None \<and>
        hosts (server_after r) = Map.empty \<and> resp_after r = demo_resp) \<and>
   (\<exists>r. HandleUDP (demo_dhcp_env (options_payload [53, 1, 3, 255]))
          (NewDHCPServer 67 (1, 2, 3, 4, 5, 6) (Addr4 (192, 168, 1, 1)))
          \<lparr>elems = [9, 9], spare = []\<rparr> demo_udp_packet =
        Returns r \<and> nbytes r = 0 \<and> uerr r = Some ''short payload to marshall DHCP'' \<and>
        hosts (server_after r) = Map.empty \<and> resp_after r = \<lparr>elems = [9, 9], spare = []\<rparr>)"
proof -
  let ?env = "demo_dhcp_env (options_payload [53, 1, 3, 255])"
  let ?d = "NewDHCPServer 67 (1, 2, 3, 4, 5, 6) (Addr4 (192, 168, 1, 1))"
  let ?short = "\<lparr>elems = [9, 9], spare = []\<rparr>"
  have has: "udpHasPacket ?env demo_udp_packet"
    and long: "SizeDHCPHeader \<le> int (slen (udpPayload ?env demo_udp_packet))"
    by (simp_all add: demo_dhcp_env_def options_payload_long)
  have fresh: "hosts ?d (EthernetHeader.Source (Eth demo_udp_packet)) = None"
    by (simp add: NewDHCPServer_def)
  have parsed: "parseDHCP ?env (udpPayload ?env demo_udp_packet) (Some visit_option)
      (case None of None \<Rightarrow> dhcpclient_zero | Some c \<Rightarrow> c, 0) =
     Returns (\<lparr>YIAddr = (0, 0, 0, 0), SIAddr = (192, 168, 1, 1)\<rparr>, None, (dhcpclient_zero, 3))"
    using parseDHCP_message_type [of 3 ?env dhcpclient_zero] by (simp add: demo_dhcp_env_def)
  have server: "As4 (siaddr ?d) = Returns (192, 168, 1, 1)"
    by (simp add: NewDHCPServer_def)
  have request: "HandleUDP ?env ?d demo_resp demo_udp_packet =
      Returns \<lparr>nbytes = 0, uerr = None, server_after = ?d, resp_after = demo_resp,
               packet_after = demo_udp_packet\<rparr>"
    by (rule HandleUDP_silent_drop [OF has demo_resp_long long fresh parsed server])
      (simp add: dhcpclient_zero_def dhcpStateWaitOffer_def)
  have short: "HandleUDP ?env ?d ?short demo_udp_packet =
      Returns \<lparr>nbytes = 0, uerr = Some ''short payload to marshall DHCP'', server_after = ?d,
               resp_after = ?short, packet_after = demo_udp_packet\<rparr>"
    by (simp add: HandleUDP_def Let_def slen_def sizeDHCPTotal_def SizeDHCPHeader_def
        sizeSName_def sizeFILE_def sizeOptions_def)
  have empty: "hosts ?d = Map.empty"
    by (simp add: NewDHCPServer_def)
  show ?thesis
    using HandleUDP_zero_bytes_unchanged [OF request] HandleUDP_zero_bytes_unchanged [OF short]
      empty
    by (simp add: request short)
qed

end
